theory Spec2Isabelle
  imports Complex_Main "HOL-Library.Word" "HOL-Library.Log_Nat"
begin

unbundle bit_operations_syntax

section \<open>The digest: SHA-256 and its hex rendering\<close>

text \<open>
  The route handler and the browser component both obtain the digest from the platform
  (\<^verbatim>\<open>crypto.createHash("sha256").update(buffer).digest("hex")\<close> on the server,
  \<^verbatim>\<open>crypto.subtle.digest("SHA-256", arrayBuffer)\<close> in the browser). The platform function
  is SHA-256 of FIPS 180-4, written out here on 32-bit words so that digests of concrete
  files can be computed.
\<close>

type_synonym byte = "8 word"
type_synonym u32 = "32 word"

definition rotr :: "nat \<Rightarrow> u32 \<Rightarrow> u32" where
  "rotr n x = drop_bit n x OR push_bit (32 - n) x"

definition Ch :: "u32 \<Rightarrow> u32 \<Rightarrow> u32 \<Rightarrow> u32" where
  "Ch x y z = (x AND y) XOR (NOT x AND z)"

definition Maj :: "u32 \<Rightarrow> u32 \<Rightarrow> u32 \<Rightarrow> u32" where
  "Maj x y z = (x AND y) XOR (x AND z) XOR (y AND z)"

definition bsig0 :: "u32 \<Rightarrow> u32" where
  "bsig0 x = rotr 2 x XOR rotr 13 x XOR rotr 22 x"

definition bsig1 :: "u32 \<Rightarrow> u32" where
  "bsig1 x = rotr 6 x XOR rotr 11 x XOR rotr 25 x"

definition ssig0 :: "u32 \<Rightarrow> u32" where
  "ssig0 x = rotr 7 x XOR rotr 18 x XOR drop_bit 3 x"

definition ssig1 :: "u32 \<Rightarrow> u32" where
  "ssig1 x = rotr 17 x XOR rotr 19 x XOR drop_bit 10 x"

text \<open>
  The round constants (the first 32 bits of the fractional parts of the cube roots of the
  first 64 primes) and the initial hash value (square roots of the first 8 primes), in
  decimal.
\<close>

definition K256 :: "u32 list" where
  "K256 =
   [1116352408, 1899447441, 3049323471, 3921009573, 961987163, 1508970993, 2453635748, 2870763221,
    3624381080, 310598401, 607225278, 1426881987, 1925078388, 2162078206, 2614888103, 3248222580,
    3835390401, 4022224774, 264347078, 604807628, 770255983, 1249150122, 1555081692, 1996064986,
    2554220882, 2821834349, 2952996808, 3210313671, 3336571891, 3584528711, 113926993, 338241895,
    666307205, 773529912, 1294757372, 1396182291, 1695183700, 1986661051, 2177026350, 2456956037,
    2730485921, 2820302411, 3259730800, 3345764771, 3516065817, 3600352804, 4094571909, 275423344,
    430227734, 506948616, 659060556, 883997877, 958139571, 1322822218, 1537002063, 1747873779,
    1955562222, 2024104815, 2227730452, 2361852424, 2428436474, 2756734187, 3204031479, 3329325298]"

definition H256 :: "u32 list" where
  "H256 = [1779033703, 3144134277, 1013904242, 2773480762,
           1359893119, 2600822924, 528734635, 1541459225]"

definition be64 :: "nat \<Rightarrow> byte list" where
  "be64 n = map (\<lambda>i. of_nat (n div 2 ^ (8 * i) mod 256)) [7, 6, 5, 4, 3, 2, 1, 0]"

text \<open>Padding: the byte 0x80, zero bytes up to 56 modulo 64, the bit length on 64 bits.\<close>

definition pad :: "byte list \<Rightarrow> byte list" where
  "pad m = m @ [128] @ replicate ((119 - length m mod 64) mod 64) 0 @ be64 (8 * length m)"

fun be_words :: "byte list \<Rightarrow> u32 list" where
  "be_words (a # b # c # d # r) =
     (push_bit 24 (ucast a) OR push_bit 16 (ucast b) OR push_bit 8 (ucast c) OR ucast d) # be_words r"
| "be_words _ = []"

definition be_bytes :: "u32 \<Rightarrow> byte list" where
  "be_bytes w = [ucast (drop_bit 24 w), ucast (drop_bit 16 w), ucast (drop_bit 8 w), ucast w]"

text \<open>
  The message schedule as a sliding window of sixteen words: the window starts as the
  block's words \<open>W\<^sub>0 \<dots> W\<^sub>1\<^sub>5\<close>; each step emits the oldest word and appends
  \<open>W\<^sub>t = ssig1 W\<^sub>t\<^sub>-\<^sub>2 + W\<^sub>t\<^sub>-\<^sub>7 + ssig0 W\<^sub>t\<^sub>-\<^sub>1\<^sub>5 + W\<^sub>t\<^sub>-\<^sub>1\<^sub>6\<close>.
\<close>

fun schedule :: "nat \<Rightarrow> u32 list \<Rightarrow> u32 list" where
  "schedule (Suc n) (w0 # ws) =
     w0 # schedule n (ws @ [ssig1 (ws ! 13) + ws ! 8 + ssig0 (ws ! 0) + w0])"
| "schedule _ _ = []"

fun round256 :: "u32 list \<Rightarrow> u32 \<times> u32 \<Rightarrow> u32 list" where
  "round256 [a, b, c, d, e, f, g, h] (k, w) =
     (let t1 = h + bsig1 e + Ch e f g + k + w;
          t2 = bsig0 a + Maj a b c
      in [t1 + t2, a, b, c, d + t1, e, f, g])"
| "round256 s _ = s"

definition compress :: "u32 list \<Rightarrow> byte list \<Rightarrow> u32 list" where
  "compress hs block =
     map2 (+) hs (foldl round256 hs (zip K256 (schedule 64 (be_words block))))"

definition blocks :: "byte list \<Rightarrow> byte list list" where
  "blocks m = map (\<lambda>i. take 64 (drop (64 * i) m)) [0 ..< length m div 64]"

definition sha256 :: "byte list \<Rightarrow> byte list" where
  "sha256 m = concat (map be_bytes (foldl compress H256 (blocks (pad m))))"

definition hexdigit :: "nat \<Rightarrow> char" where
  "hexdigit n = ''0123456789abcdef'' ! (n mod 16)"

text \<open>Node's \<^verbatim>\<open>digest("hex")\<close>: two lowercase hex digits for each byte.\<close>

definition hex_byte :: "byte \<Rightarrow> string" where
  "hex_byte x = [hexdigit (unat x div 16), hexdigit (unat x mod 16)]"

definition digest_hex :: "byte list \<Rightarrow> string" where
  "digest_hex m = concat (map hex_byte (sha256 m))"


section \<open>JavaScript numbers\<close>

text \<open>
  A JavaScript number is an IEEE 754 binary64 value. The finite ones are rationals, and an
  arithmetic operation returns the exact result rounded to the nearest representable value,
  ties to the even significand. \<open>fl64\<close> is that rounding, with gradual underflow below
  \<open>2\<^sup>-\<^sup>1\<^sup>0\<^sup>2\<^sup>2\<close>; overflow to infinity is left out (every value computed below is less
  than 4 in absolute value, except the mock identifier, which is below \<open>10\<^sup>6\<close>).
\<close>

definition ilog2 :: "rat \<Rightarrow> int" where
  \<comment> \<open>\<open>\<lfloor>log\<^sub>2 x\<rfloor>\<close> for \<open>x > 0\<close>\<close>
  "ilog2 x =
     (if 1 \<le> x then int (floorlog 2 (nat \<lfloor>x\<rfloor>)) - 1
      else - int (floorlog 2 (nat (\<lceil>1 / x\<rceil> - 1))))"

definition round_even :: "rat \<Rightarrow> int" where
  "round_even m =
     (let f = \<lfloor>m\<rfloor>; d = m - of_int f
      in if d < 1 / 2 then f else if 1 / 2 < d then f + 1 else if even f then f else f + 1)"

definition fl64 :: "rat \<Rightarrow> rat" where
  "fl64 x =
     (if x = 0 then 0
      else let e = max (ilog2 \<bar>x\<bar>) (- 1022);
               q = 2 powi (e - 52)
           in sgn x * of_int (round_even (\<bar>x\<bar> / q)) * q)"

definition fadd :: "rat \<Rightarrow> rat \<Rightarrow> rat" where
  "fadd x y = fl64 (x + y)"

definition fsub :: "rat \<Rightarrow> rat \<Rightarrow> rat" where
  "fsub x y = fl64 (x - y)"

definition fmul :: "rat \<Rightarrow> rat \<Rightarrow> rat" where
  "fmul x y = fl64 (x * y)"

text \<open>
  \<^verbatim>\<open>x.toFixed(2)\<close> picks the integer \<open>n\<close> with \<open>n / 100\<close> nearest to the exact value of
  \<open>x\<close>, the larger one when two are equally near (after taking the sign off), and prints it
  with two decimals; \<^verbatim>\<open>Number(...)\<close> reads the decimal back as the nearest binary64 value.
\<close>

definition toFixed2 :: "rat \<Rightarrow> int" where
  "toFixed2 x = (if x < 0 then - \<lfloor>- x * 100 + 1 / 2\<rfloor> else \<lfloor>x * 100 + 1 / 2\<rfloor>)"

definition Number_toFixed2 :: "rat \<Rightarrow> rat" where
  "Number_toFixed2 x = fl64 (of_int (toFixed2 x) / 100)"

text \<open>
  Decimal rendering of a non-negative integer, as template strings and \<^verbatim>\<open>+\<close> do (the
  first ten digits of \<open>hexdigit\<close> are the decimal digits).
\<close>

fun dec :: "nat \<Rightarrow> string" where
  "dec n = (if n < 10 then [hexdigit n] else dec (n div 10) @ [hexdigit (n mod 10)])"

declare dec.simps [simp del]

text \<open>Truthiness of a \<^verbatim>\<open>string | null\<close>: \<^verbatim>\<open>null\<close> and the empty string are falsy.\<close>

definition truthy :: "string option \<Rightarrow> bool" where
  "truthy s = (case s of None \<Rightarrow> False | Some v \<Rightarrow> v \<noteq> [])"


section \<open>The scorer shared by the route handler and the mock verifier\<close>

text \<open>
  Both \<^verbatim>\<open>POST\<close> and \<^verbatim>\<open>mockVerify\<close> contain the same three lines:
  \<^verbatim>\<open>
  const randomScore = 0.6 + Math.random() * 0.35;
  const aiProb = 1 - randomScore;
  const message = randomScore > 0.8 ? "Likely Authentic"
                : randomScore > 0.65 ? "Uncertain" : "Likely AI-generated";
  \<close>
  The value of \<^verbatim>\<open>Math.random()\<close> is the argument \<open>r\<close>.
\<close>

definition randomScore :: "rat \<Rightarrow> rat" where
  "randomScore r = fadd (fl64 (6 / 10)) (fmul r (fl64 (35 / 100)))"

definition aiProb :: "rat \<Rightarrow> rat" where
  "aiProb r = fsub 1 (randomScore r)"

definition message_of :: "rat \<Rightarrow> string" where
  "message_of score =
     (if fl64 (8 / 10) < score then ''Likely Authentic''
      else if fl64 (65 / 100) < score then ''Uncertain''
      else ''Likely AI-generated'')"


section \<open>The route handler\<close>

record upload_file =
  name :: string
  content :: "byte list"

record form_data =
  "file" :: "upload_file option"
  clientHash :: "string option"

datatype exif_info = Exif (camera: "string option") (hasExif: bool)

datatype json =
    ErrorJson (status: string) (message: string)
  | VerifyJson (status: string) (polarisId: string) (authenticityScore: rat)
      (aiProbability: rat) (exif: exif_info) (hash: "string option") (message: string)

record http_response =
  code :: nat
  body :: json

text \<open>
  \<open>POST req now r1 r2\<close>: the handler on the form \<open>req\<close>, with \<^verbatim>\<open>Date.now()\<close> returning
  \<open>now\<close> and the two calls of \<^verbatim>\<open>Math.random()\<close> returning \<open>r1\<close> and \<open>r2\<close>. The form
  has the types that the casts \<^verbatim>\<open>as File | null\<close> and \<^verbatim>\<open>as string | null\<close> announce; the
  handler on whatever \<^verbatim>\<open>FormData.get\<close> returns is \<open>POST_request\<close> below.
\<close>

definition POST :: "form_data \<Rightarrow> nat \<Rightarrow> rat \<Rightarrow> rat \<Rightarrow> http_response" where
  "POST req now r1 r2 =
     (case file req of
        None \<Rightarrow> \<lparr>code = 400, body = ErrorJson ''error'' ''No file uploaded''\<rparr>
      | Some f \<Rightarrow>
          let buffer = content f;
              serverHash = digest_hex buffer
          in if truthy (clientHash req) \<and> clientHash req \<noteq> Some serverHash
             then \<lparr>code = 400, body = ErrorJson ''error'' ''Hash mismatch - file may be tampered''\<rparr>
             else \<lparr>code = 200,
                   body = VerifyJson ''ok'' (''PLS-'' @ dec now)
                            (Number_toFixed2 (randomScore r1))
                            (Number_toFixed2 (aiProb r1))
                            (Exif None (fl64 (5 / 10) < r2))
                            (if truthy (clientHash req) then clientHash req else Some serverHash)
                            (message_of (randomScore r1))\<rparr>)"

text \<open>
  The casts are not checked. \<^verbatim>\<open>FormData.get\<close> returns \<^verbatim>\<open>null\<close>, a string (a text field) or a
  \<^verbatim>\<open>File\<close>, for \<^verbatim>\<open>file\<close> and for \<^verbatim>\<open>hash\<close> alike. A string is falsy when empty; a
  \<^verbatim>\<open>File\<close> is an object and always truthy. A non-empty string in \<^verbatim>\<open>file\<close> passes
  \<^verbatim>\<open>if (!file)\<close> and has no method \<^verbatim>\<open>arrayBuffer\<close>: the call throws a \<^verbatim>\<open>TypeError\<close> and the
  handler returns no response. A \<^verbatim>\<open>File\<close> in \<^verbatim>\<open>hash\<close> is truthy and never \<^verbatim>\<open>===\<close> a string.
\<close>

datatype form_value = TextValue string | FileValue upload_file

datatype js_error = TypeError

record raw_form =
  raw_file :: "form_value option"
  raw_hash :: "form_value option"

definition truthy_value :: "form_value option \<Rightarrow> bool" where
  "truthy_value v =
     (case v of None \<Rightarrow> False | Some (TextValue t) \<Rightarrow> t \<noteq> [] | Some (FileValue f) \<Rightarrow> True)"

definition POST_request :: "raw_form \<Rightarrow> nat \<Rightarrow> rat \<Rightarrow> rat \<Rightarrow> js_error + http_response" where
  "POST_request req now r1 r2 =
     (if \<not> truthy_value (raw_file req)
      then Inr \<lparr>code = 400, body = ErrorJson ''error'' ''No file uploaded''\<rparr>
      else case raw_file req of
             Some (FileValue f) \<Rightarrow>
               let buffer = content f;
                   serverHash = digest_hex buffer
               in if truthy_value (raw_hash req) \<and> raw_hash req \<noteq> Some (TextValue serverHash)
                  then Inr \<lparr>code = 400,
                            body = ErrorJson ''error'' ''Hash mismatch - file may be tampered''\<rparr>
                  else Inr \<lparr>code = 200,
                            body = VerifyJson ''ok'' (''PLS-'' @ dec now)
                                     (Number_toFixed2 (randomScore r1))
                                     (Number_toFixed2 (aiProb r1))
                                     (Exif None (fl64 (5 / 10) < r2))
                                     (if truthy_value (raw_hash req)
                                      then (case raw_hash req of
                                              Some (TextValue t) \<Rightarrow> Some t
                                            | _ \<Rightarrow> None)
                                      else Some serverHash)
                                     (message_of (randomScore r1))\<rparr>
           | _ \<Rightarrow> Inl TypeError)"


section \<open>The browser component\<close>

definition toString16 :: "nat \<Rightarrow> string" where
  \<comment> \<open>\<^verbatim>\<open>x.toString(16)\<close> for a byte\<close>
  "toString16 x = (if x < 16 then [hexdigit x] else [hexdigit (x div 16), hexdigit (x mod 16)])"

definition slice_last2 :: "string \<Rightarrow> string" where
  \<comment> \<open>\<^verbatim>\<open>s.slice(-2)\<close>\<close>
  "slice_last2 s = drop (length s - 2) s"

definition bytesToHex :: "byte list \<Rightarrow> string" where
  "bytesToHex buffer = concat (map (\<lambda>x. slice_last2 (''00'' @ toString16 (unat x))) buffer)"

definition computeSHA256 :: "upload_file \<Rightarrow> string" where
  "computeSHA256 f = bytesToHex (sha256 (content f))"

definition ascii_lower :: "char \<Rightarrow> char" where
  "ascii_lower c =
     (case map_of (zip ''ABCDEFGHIJKLMNOPQRSTUVWXYZ'' ''abcdefghijklmnopqrstuvwxyz'') c of
        None \<Rightarrow> c
      | Some l \<Rightarrow> l)"

definition ext_of :: "string \<Rightarrow> string" where
  \<comment> \<open>\<^verbatim>\<open>name.split(".").pop().toLowerCase()\<close>, on ASCII names\<close>
  "ext_of n = map ascii_lower (rev (takeWhile (\<lambda>c. c \<noteq> CHR ''.'') (rev n)))"

text \<open>
  \<open>mockVerify f h m1 m2 m3\<close>: the mock verifier, its three calls of \<^verbatim>\<open>Math.random()\<close>
  returning \<open>m1\<close> (score), \<open>m2\<close> (identifier) and \<open>m3\<close> (EXIF flag, drawn for images only).
\<close>

definition mockVerify :: "upload_file \<Rightarrow> string option \<Rightarrow> rat \<Rightarrow> rat \<Rightarrow> rat \<Rightarrow> json" where
  "mockVerify f h m1 m2 m3 =
     (let ext = ext_of (name f);
          isImage = (ext \<in> set [''jpg'', ''jpeg'', ''png'', ''webp''])
      in VerifyJson ''ok''
           (''PLS-MOCK-'' @ dec (nat \<lfloor>fmul m2 1000000\<rfloor>))
           (Number_toFixed2 (randomScore m1))
           (Number_toFixed2 (aiProb m1))
           (if isImage then Exif (Some ''MockCam 1.0'') (fl64 (4 / 10) < m3) else Exif None False)
           h
           (message_of (randomScore m1)))"

record ui_state =
  ui_file :: "upload_file option"
  ui_hash :: "string option"
  ui_loading :: bool
  ui_result :: "json option"
  ui_error :: "string option"

text \<open>
  \<^verbatim>\<open>handleFiles\<close> on a selected file \<open>f\<close> runs in two parts, separated by
  \<^verbatim>\<open>await computeSHA256(f)\<close>: the part before the \<^verbatim>\<open>await\<close> stores the file and sets the
  loading flag; the part after it (here for a hash that was computed without an exception)
  stores the hash and clears the flag. Other handlers can run between the two.
\<close>

definition handleFiles_begin :: "upload_file \<Rightarrow> ui_state \<Rightarrow> ui_state" where
  "handleFiles_begin f st = st\<lparr>ui_error := None, ui_result := None, ui_file := Some f, ui_loading := True\<rparr>"

definition handleFiles_resume :: "upload_file \<Rightarrow> ui_state \<Rightarrow> ui_state" where
  "handleFiles_resume f st = st\<lparr>ui_hash := Some (computeSHA256 f), ui_loading := False\<rparr>"

definition initial_state :: ui_state where
  \<comment> \<open>the \<^verbatim>\<open>useState\<close> initial values\<close>
  "initial_state =
     \<lparr>ui_file = None, ui_hash = None, ui_loading = False, ui_result = None, ui_error = None\<rparr>"

datatype fetch_result = NetworkError | Response http_response

definition ok :: "http_response \<Rightarrow> bool" where
  \<comment> \<open>\<^verbatim>\<open>resp.ok\<close>\<close>
  "ok resp = (200 \<le> code resp \<and> code resp \<le> 299)"

text \<open>
  \<open>uploadAndVerify fetch m1 m2 m3 st\<close>: the click handler on the component state \<open>st\<close>.
  \<open>fetch\<close> is what the network call does with the form (\<open>NetworkError\<close> when the promise
  rejects); a response that is not \<^verbatim>\<open>ok\<close> throws, and the \<^verbatim>\<open>catch\<close> block runs the mock
  verifier on the selected file.
\<close>

definition uploadAndVerify ::
  "(form_data \<Rightarrow> fetch_result) \<Rightarrow> rat \<Rightarrow> rat \<Rightarrow> rat \<Rightarrow> ui_state \<Rightarrow> ui_state" where
  "uploadAndVerify fetch m1 m2 m3 st =
     (let st1 = st\<lparr>ui_error := None, ui_result := None\<rparr>
      in case ui_file st1 of
           None \<Rightarrow> st1\<lparr>ui_error := Some ''No file selected''\<rparr>
         | Some f \<Rightarrow>
             let form = \<lparr>file = Some f,
                         clientHash = (if truthy (ui_hash st1) then ui_hash st1 else None)\<rparr>;
                 mock = st1\<lparr>ui_result := Some (mockVerify f (ui_hash st1) m1 m2 m3),
                            ui_loading := False\<rparr>
             in case fetch form of
                  NetworkError \<Rightarrow> mock
                | Response resp \<Rightarrow>
                    if ok resp then st1\<lparr>ui_result := Some (body resp), ui_loading := False\<rparr>
                    else mock)"

text \<open>The backend reached through \<^verbatim>\<open>fetch("/api/verify", ...)\<close> when it is up.\<close>

definition api_verify :: "nat \<Rightarrow> rat \<Rightarrow> rat \<Rightarrow> form_data \<Rightarrow> fetch_result" where
  "api_verify now r1 r2 form = Response (POST form now r1 r2)"

text \<open>
  The demo file of the component (\<^verbatim>\<open>Load Demo Image\<close>): the eight bytes of the PNG
  signature, named \<^verbatim>\<open>demo.png\<close>.
\<close>

definition demoFile :: upload_file where
  "demoFile = \<lparr>name = ''demo.png'', content = [137, 80, 78, 71, 13, 10, 26, 10]\<rparr>"

text \<open>The alphabet of a lowercase hex digest.\<close>

definition lower_hex :: "char set" where
  "lower_hex = set ''0123456789abcdef''"

text \<open>
  The registers after one round, each sum cut back to 32 bits: the same list as in
  \<open>round256\<close>, in the form in which the simplifier evaluates a round on numerals.
\<close>

definition round_regs :: "u32 list \<Rightarrow> u32 \<Rightarrow> u32 \<Rightarrow> u32 list" where
  "round_regs s t1 t2 =
     [take_bit 32 (t1 + t2), s ! 0, s ! 1, s ! 2, take_bit 32 (s ! 3 + t1), s ! 4, s ! 5, s ! 6]"


section \<open>Shape of a digest\<close>

lemma length_round256: "length (round256 s kw) = length s"
  by (induction s kw rule: round256.induct) (simp_all add: Let_def)

lemma length_foldl_round256: "length (foldl round256 s kws) = length s"
  by (induction kws arbitrary: s) (simp_all add: length_round256)

lemma length_compress: "length (compress hs block) = length hs"
  by (simp add: compress_def length_foldl_round256)

lemma length_foldl_compress: "length (foldl compress hs bs) = length hs"
  by (induction bs arbitrary: hs) (simp_all add: length_compress)

lemma length_concat_be_bytes: "length (concat (map be_bytes ws)) = 4 * length ws"
  by (induction ws) (simp_all add: be_bytes_def)

lemma length_sha256: "length (sha256 m) = 32"
  by (simp add: sha256_def length_concat_be_bytes length_foldl_compress H256_def)

lemma length_concat_hex_byte: "length (concat (map hex_byte bs)) = 2 * length bs"
  by (induction bs) (simp_all add: hex_byte_def)

lemma length_digest_hex: "length (digest_hex m) = 64"
  by (simp add: digest_hex_def length_concat_hex_byte length_sha256)

lemma hexdigit_lower: "hexdigit n \<in> lower_hex"
proof -
  have "n mod 16 < length ''0123456789abcdef''" by simp
  then show ?thesis unfolding hexdigit_def lower_hex_def by (rule nth_mem)
qed

lemma set_hex_byte: "set (hex_byte x) \<subseteq> lower_hex"
  using hexdigit_lower [of "unat x div 16"] hexdigit_lower [of "unat x mod 16"]
  by (simp add: hex_byte_def)

lemma set_digest_hex: "set (digest_hex m) \<subseteq> lower_hex"
  using set_hex_byte by (fastforce simp: digest_hex_def)

text \<open>The browser's \<open>bytesToHex\<close> renders a byte as Node's \<^verbatim>\<open>digest("hex")\<close> does.\<close>

lemma slice_toString16:
  "slice_last2 (CHR ''0'' # CHR ''0'' # toString16 (unat (x :: byte))) = hex_byte x"
  by (simp add: slice_last2_def toString16_def hex_byte_def hexdigit_def)

lemma bytesToHex_hex: "bytesToHex bs = concat (map hex_byte bs)"
  by (simp add: bytesToHex_def slice_toString16)

lemma computeSHA256_digest: "computeSHA256 f = digest_hex (content f)"
  by (simp add: computeSHA256_def digest_hex_def bytesToHex_hex)


section \<open>Digests of concrete files\<close>

text \<open>
  The simplifier does not cut a word numeral back to 32 bits after an operation, so the
  numerals of 64 rounds would grow without bound. The rules below are the definitions with
  \<open>take_bit 32\<close> (the identity on a 32-bit word) around every rotation and sum.
\<close>

lemma replicate_numeral: "replicate (numeral k) x = x # replicate (pred_numeral k) x"
  by (simp add: numeral_eq_Suc)

lemma tb32: "take_bit 32 (x :: u32) = x"
  by (simp add: take_bit_word_eq_self)

lemma rotr_eval: "rotr n x = take_bit 32 (drop_bit n x OR push_bit (32 - n) x)"
  by (simp only: rotr_def tb32)

lemma schedule_eval:
  "schedule (numeral k) (w0 # ws) =
     w0 # schedule (pred_numeral k)
            (ws @ [take_bit 32 (ssig1 (ws ! 13) + ws ! 8 + ssig0 (ws ! 0) + w0)])"
  unfolding tb32 by (simp add: numeral_eq_Suc)

lemma round256_eval:
  "round256 [a, b, c, d, e, f, g, h] (k, w) =
     round_regs [a, b, c, d, e, f, g] (take_bit 32 (h + bsig1 e + Ch e f g + k + w))
       (take_bit 32 (bsig0 a + Maj a b c))"
  by (simp add: tb32 round_regs_def Let_def)

lemma map2_plus_eval:
  "map2 (+) (x # xs) (y # ys) = take_bit 32 (x + y) # map2 (+) xs (ys :: u32 list)"
  by (simp add: tb32)

lemmas digest_eval =
  digest_hex_def sha256_def pad_def be64_def replicate_numeral blocks_def compress_def
  rotr_eval schedule_eval round256_eval round_regs_def map2_plus_eval
  ssig0_def ssig1_def bsig0_def bsig1_def Ch_def Maj_def K256_def H256_def
  be_bytes_def hex_byte_def hexdigit_def

text \<open>The one-block test vector of FIPS 180-4: the digest of \<^verbatim>\<open>abc\<close>.\<close>

lemma digest_abc:
  "digest_hex [97, 98, 99] =
     ''ba7816bf8f01cfea414140de5dae2223b00361a396177a9cb410ff61f20015ad''"
  by (simp add: digest_eval)

lemma digest_demo:
  "digest_hex (content demoFile) =
     ''4c4b6a3be1314ab86138bef4314dde022e600960d8689a2c8f8631802d20dab6''"
  by (simp add: demoFile_def digest_eval)

lemma name_demo: "name demoFile = ''demo.png''"
  by (simp add: demoFile_def)

lemma ext_demo: "ext_of ''demo.png'' = ''png''"
  by (simp add: ext_of_def ascii_lower_def)


section \<open>Rounding to binary64\<close>

lemma ilog2_bounds:
  assumes "0 < x"
  shows "2 powi (ilog2 x) \<le> x \<and> x < 2 powi (ilog2 x + 1)"
proof (cases "1 \<le> x")
  case True
  define n where "n = nat \<lfloor>x\<rfloor>"
  define k where "k = floorlog 2 n"
  have n1: "1 \<le> \<lfloor>x\<rfloor>" using True by simp
  then have npos: "0 < n" by (simp add: n_def)
  have b: "2 ^ (k - 1) \<le> n \<and> n < 2 ^ k"
    unfolding k_def using floorlog_bounds [of n 2] npos by simp
  have kpos: "0 < k"
    unfolding k_def using npos by (simp add: floorlog_def)
  have il: "ilog2 x = int k - 1"
    using True by (simp add: ilog2_def n_def k_def)
  have nx: "rat_of_nat n = of_int \<lfloor>x\<rfloor>"
    using n1 by (simp add: n_def)
  have p1: "(2::rat) powi (int k - 1) = 2 ^ (k - 1)"
    using kpos by (simp add: power_int_def nat_diff_distrib')
  have p2: "(2::rat) powi (int k - 1 + 1) = 2 ^ k"
    by simp
  have lo: "(2::rat) ^ (k - 1) \<le> of_nat n"
    using b by (metis of_nat_le_iff of_nat_numeral of_nat_power)
  have hi: "rat_of_nat n + 1 \<le> 2 ^ k"
  proof -
    have "n + 1 \<le> 2 ^ k" using b by simp
    then have "rat_of_nat (n + 1) \<le> of_nat (2 ^ k)" by (rule of_nat_mono)
    then show ?thesis by simp
  qed
  have "of_int \<lfloor>x\<rfloor> \<le> x" and "x < of_int \<lfloor>x\<rfloor> + 1" by linarith+
  with lo hi nx show ?thesis unfolding il p1 p2 by linarith
next
  case False
  then have x1: "x < 1" by simp
  define y where "y = 1 / x"
  have y1: "1 < y" using assms x1 by (simp add: y_def)
  define m where "m = nat (\<lceil>y\<rceil> - 1)"
  define k where "k = floorlog 2 m"
  have c2: "2 \<le> \<lceil>y\<rceil>" using y1 by linarith
  then have mpos: "0 < m" by (simp add: m_def)
  have mc: "rat_of_nat m = of_int \<lceil>y\<rceil> - 1"
    using c2 by (simp add: m_def)
  have b: "2 ^ (k - 1) \<le> m \<and> m < 2 ^ k"
    unfolding k_def using floorlog_bounds [of m 2] mpos by simp
  have kpos: "0 < k"
    unfolding k_def using mpos by (simp add: floorlog_def)
  have il: "ilog2 x = - int k"
    using False by (simp add: ilog2_def m_def k_def y_def)
  have lo: "(2::rat) ^ (k - 1) \<le> of_nat m"
    using b by (metis of_nat_le_iff of_nat_numeral of_nat_power)
  have hi: "rat_of_nat m + 1 \<le> 2 ^ k"
  proof -
    have "m + 1 \<le> 2 ^ k" using b by simp
    then have "rat_of_nat (m + 1) \<le> of_nat (2 ^ k)" by (rule of_nat_mono)
    then show ?thesis by simp
  qed
  have yc: "y \<le> of_int \<lceil>y\<rceil>" and cy: "of_int \<lceil>y\<rceil> - 1 < y" by linarith+
  have yhi: "y \<le> 2 ^ k" using yc mc hi by linarith
  have ylo: "2 ^ (k - 1) < y" using cy mc lo by linarith
  have xy: "x = 1 / y" using assms by (simp add: y_def)
  have ypos: "0 < y" using y1 by simp
  have p1: "(2::rat) powi (- int k) = 1 / 2 ^ k"
    by (simp add: power_int_minus_divide)
  have p2: "(2::rat) powi (- int k + 1) = 1 / 2 ^ (k - 1)"
  proof -
    have "- int k + 1 = - int (k - 1)" using kpos by simp
    then show ?thesis by (simp only: power_int_minus_divide power_int_of_nat)
  qed
  have "1 / 2 ^ k \<le> 1 / y"
    using yhi ypos by (simp add: frac_le)
  then have xlo: "1 / 2 ^ k \<le> x" by (simp only: xy)
  have "1 / y < 1 / 2 ^ (k - 1)"
    using ylo by (simp add: frac_less2)
  then have xhi: "x < 1 / 2 ^ (k - 1)" by (simp only: xy)
  from xlo xhi show ?thesis unfolding il p1 p2 by simp
qed

lemma round_even_err: "\<bar>of_int (round_even m) - m\<bar> \<le> 1 / 2"
proof -
  have "of_int \<lfloor>m\<rfloor> \<le> m" and "m < of_int \<lfloor>m\<rfloor> + 1" by linarith+
  then show ?thesis by (auto simp: round_even_def Let_def)
qed

text \<open>Below 4 the spacing of binary64 values is at most \<open>2\<^sup>-\<^sup>5\<^sup>1\<close>, so rounding moves a value by at most \<open>2\<^sup>-\<^sup>5\<^sup>2\<close>.\<close>

lemma fl64_err:
  assumes "0 \<le> x" and "x < 4"
  shows "\<bar>fl64 x - x\<bar> \<le> 1 / 2 ^ 52"
proof (cases "x = 0")
  case True
  then show ?thesis by (simp add: fl64_def)
next
  case False
  with assms have pos: "0 < x" by simp
  define e where "e = max (ilog2 x) (- 1022)"
  define q :: rat where "q = 2 powi (e - 52)"
  have qpos: "0 < q" by (simp add: q_def)
  have fx: "fl64 x = of_int (round_even (x / q)) * q"
    using pos by (simp add: fl64_def Let_def e_def q_def)
  have "2 powi (ilog2 x) < (2::rat) powi 2"
    using ilog2_bounds [OF pos] assms(2) by simp
  then have "ilog2 x < 2"
    by (rule power_int_le_imp_less_exp [rotated]) simp_all
  then have e1: "e - 52 \<le> - 51" by (simp add: e_def)
  have "q \<le> 2 powi (- 51)"
    unfolding q_def using e1 by (intro power_int_increasing) simp_all
  then have qle: "q \<le> 1 / 2 ^ 51" by (simp add: power_int_minus_divide)
  have "fl64 x - x = (of_int (round_even (x / q)) - x / q) * q"
    using qpos by (simp add: fx algebra_simps)
  then have "\<bar>fl64 x - x\<bar> = \<bar>of_int (round_even (x / q)) - x / q\<bar> * q"
    using qpos by (simp add: abs_mult)
  also have "\<dots> \<le> (1 / 2) * q"
    using round_even_err [of "x / q"] qpos by (intro mult_right_mono) simp_all
  also have "\<dots> \<le> (1 / 2) * (1 / 2 ^ 51)"
    using qle by simp
  finally show ?thesis by simp
qed

text \<open>Rules that let the simplifier compute \<open>fl64\<close> on a numeral.\<close>

lemma floor_rat_numeral: "\<lfloor>numeral a / numeral b :: rat\<rfloor> = numeral a div numeral b"
  by (metis floor_divide_of_int_eq of_int_numeral)

lemma floor_rat_one_numeral: "\<lfloor>1 / numeral b :: rat\<rfloor> = 1 div numeral b"
  by (metis floor_divide_of_int_eq of_int_numeral of_int_1)

lemma ceiling_rat_numeral: "\<lceil>numeral a / numeral b :: rat\<rceil> = - (- numeral a div numeral b)"
  by (metis ceiling_def floor_divide_of_int_eq minus_divide_left of_int_minus of_int_numeral)

lemma floorlog2_numeral: "floorlog 2 (numeral k) = floorlog 2 (numeral k div 2) + 1"
  by (subst compute_floorlog) simp

lemma floorlog2_1: "floorlog 2 1 = 1"
  by (subst compute_floorlog) (simp add: floorlog_eq_zero_iff)

lemma floorlog2_Suc0: "floorlog 2 (Suc 0) = 1"
  by (subst compute_floorlog) (simp add: floorlog_eq_zero_iff)

lemma floorlog2_0: "floorlog 2 0 = 0"
  by (simp add: floorlog_eq_zero_iff)

lemmas fl_eval =
  fl64_def ilog2_def round_even_def Let_def floor_rat_numeral floor_rat_one_numeral
  ceiling_rat_numeral floorlog2_numeral floorlog2_1 floorlog2_Suc0 floorlog2_0
  power_int_minus fadd_def fsub_def fmul_def toFixed2_def Number_toFixed2_def

text \<open>
  Known values: the binary64 number written \<^verbatim>\<open>0.1\<close>, a value that is kept, two ties between
  neighbours (the even significand wins), and \<^verbatim>\<open>0.1 + 0.2\<close>, which is not \<^verbatim>\<open>0.3\<close>.
\<close>

lemma fl64_tenth: "fl64 (1 / 10) = 3602879701896397 / 36028797018963968"
  by (simp add: fl_eval)

lemma fl64_exact: "fl64 (11 / 16) = 11 / 16"
  by (simp add: fl_eval)

lemma fl64_tie_down: "fl64 9007199254740993 = 9007199254740992"
  by (simp add: fl_eval)

lemma fl64_tie_up: "fl64 9007199254740995 = 9007199254740996"
  by (simp add: fl_eval)

lemma fl64_sum: "fadd (fl64 (1 / 10)) (fl64 (2 / 10)) \<noteq> fl64 (3 / 10)"
  by (simp add: fl_eval)


section \<open>Decimal rendering\<close>

lemma hexdigit_inj: "a < 16 \<Longrightarrow> b < 16 \<Longrightarrow> hexdigit a = hexdigit b \<Longrightarrow> a = b"
proof -
  assume a: "a < 16" and b: "b < 16" and e: "hexdigit a = hexdigit b"
  have d: "distinct ''0123456789abcdef''" by simp
  have "''0123456789abcdef'' ! a = ''0123456789abcdef'' ! b"
    using e a b by (simp add: hexdigit_def)
  with d a b show "a = b" by (simp add: nth_eq_iff_index_eq)
qed

lemma dec_nonempty: "dec n \<noteq> []"
  by (subst dec.simps) simp

lemma dec_inj: "dec n = dec m \<Longrightarrow> n = m"
proof (induction n arbitrary: m rule: dec.induct)
  case (1 n)
  show ?case
  proof (cases "n < 10")
    case True
    have m10: "m < 10"
    proof (rule ccontr)
      assume "\<not> m < 10"
      then have "dec m = dec (m div 10) @ [hexdigit (m mod 10)]" by (subst dec.simps) simp
      moreover have "dec n = [hexdigit n]" using True by (subst dec.simps) simp
      ultimately show False using "1.prems" dec_nonempty [of "m div 10"] by simp
    qed
    have "dec n = [hexdigit n]" using True by (subst dec.simps) simp
    moreover have "dec m = [hexdigit m]" using m10 by (subst dec.simps) simp
    ultimately have "hexdigit n = hexdigit m" using "1.prems" by simp
    then show ?thesis using True m10 by (intro hexdigit_inj) simp_all
  next
    case False
    then have dn: "dec n = dec (n div 10) @ [hexdigit (n mod 10)]" by (subst dec.simps) simp
    have m10: "\<not> m < 10"
    proof
      assume "m < 10"
      then have "dec m = [hexdigit m]" by (subst dec.simps) simp
      with dn "1.prems" dec_nonempty [of "n div 10"] show False by simp
    qed
    then have dm: "dec m = dec (m div 10) @ [hexdigit (m mod 10)]" by (subst dec.simps) simp
    from dn dm "1.prems" have t: "dec (n div 10) = dec (m div 10)"
      and h: "hexdigit (n mod 10) = hexdigit (m mod 10)" by simp_all
    from "1.IH" [OF False t] have q: "n div 10 = m div 10" .
    have r: "n mod 10 = m mod 10" using h by (intro hexdigit_inj) simp_all
    show ?thesis using q r by (metis div_mult_mod_eq)
  qed
qed

lemma dec_now: "dec 1762128000000 = ''1762128000000''"
  by (simp add: dec.simps hexdigit_def)


section \<open>The three outcomes of the route handler\<close>

lemma POST_no_file:
  "file req = None \<Longrightarrow>
   POST req now r1 r2 = \<lparr>code = 400, body = ErrorJson ''error'' ''No file uploaded''\<rparr>"
  by (simp add: POST_def)

lemma POST_mismatch:
  "file req = Some f \<Longrightarrow> truthy (clientHash req) \<Longrightarrow>
   clientHash req \<noteq> Some (digest_hex (content f)) \<Longrightarrow>
   POST req now r1 r2 =
     \<lparr>code = 400, body = ErrorJson ''error'' ''Hash mismatch - file may be tampered''\<rparr>"
  by (simp add: POST_def Let_def)

lemma POST_pass:
  "file req = Some f \<Longrightarrow>
   \<not> (truthy (clientHash req) \<and> clientHash req \<noteq> Some (digest_hex (content f))) \<Longrightarrow>
   POST req now r1 r2 =
     \<lparr>code = 200,
      body = VerifyJson ''ok'' (''PLS-'' @ dec now)
               (Number_toFixed2 (randomScore r1)) (Number_toFixed2 (aiProb r1))
               (Exif None (fl64 (5 / 10) < r2))
               (if truthy (clientHash req) then clientHash req else Some (digest_hex (content f)))
               (message_of (randomScore r1))\<rparr>"
  by (simp add: POST_def Let_def)

lemma POST_ok_cases:
  assumes "status (body (POST req now r1 r2)) = ''ok''"
  obtains f where "file req = Some f"
    and "\<not> (truthy (clientHash req) \<and> clientHash req \<noteq> Some (digest_hex (content f)))"
proof (cases "file req")
  case None
  with assms show ?thesis by (simp add: POST_no_file)
next
  case (Some f)
  show ?thesis
  proof (cases "truthy (clientHash req) \<and> clientHash req \<noteq> Some (digest_hex (content f))")
    case True
    with Some assms show ?thesis by (simp add: POST_mismatch)
  next
    case False
    with Some that show ?thesis by blast
  qed
qed

text \<open>
  On a form of the announced types, no entry or a \<^verbatim>\<open>File\<close> in \<^verbatim>\<open>file\<close> and no entry or a
  string in \<^verbatim>\<open>hash\<close>, the handler returns, and returns what \<open>POST\<close> computes.
\<close>

lemma truthy_value_text: "truthy_value (map_option TextValue c) = truthy c"
  by (cases c) (simp_all add: truthy_value_def truthy_def)

lemma POST_request_typed:
  "POST_request \<lparr>raw_file = map_option FileValue (file req),
                 raw_hash = map_option TextValue (clientHash req)\<rparr> now r1 r2 =
     Inr (POST req now r1 r2)"
proof (cases "file req")
  case None
  then show ?thesis by (simp add: POST_request_def POST_def truthy_value_def)
next
  case (Some f)
  have t: "truthy_value (Some (FileValue f))" by (simp add: truthy_value_def)
  have e: "(map_option TextValue (clientHash req) \<noteq> Some (TextValue d)) =
           (clientHash req \<noteq> Some d)" for d
    by (cases "clientHash req") simp_all
  have h: "(case map_option TextValue (clientHash req) of
              Some (TextValue t) \<Rightarrow> Some t | _ \<Rightarrow> None) = clientHash req"
    by (cases "clientHash req") simp_all
  show ?thesis
    unfolding POST_request_def POST_def
    by (simp add: Some t e h truthy_value_text Let_def)
qed

text \<open>The path the casts hide: a non-empty text field named \<^verbatim>\<open>file\<close> makes the handler throw.\<close>

lemma POST_request_text_throws:
  "t \<noteq> [] \<Longrightarrow>
   POST_request \<lparr>raw_file = Some (TextValue t), raw_hash = h\<rparr> now r1 r2 = Inl TypeError"
  by (simp add: POST_request_def truthy_value_def)

lemma POST_request_text_throws_abc:
  "POST_request \<lparr>raw_file = Some (TextValue ''abc''), raw_hash = None\<rparr>
     1762128000000 (1 / 4) (1 / 2) = Inl TypeError"
  by (rule POST_request_text_throws) simp


section \<open>Range of the score\<close>

text \<open>The raw score stays inside the interval that \<^verbatim>\<open>toFixed(2)\<close> maps to 0.60 .. 0.95.\<close>

lemma randomScore_range:
  assumes "0 \<le> r" and "r < 1"
  shows "595 / 1000 \<le> randomScore r \<and> randomScore r < 955 / 1000"
proof -
  define c6 where "c6 = fl64 (6 / 10)"
  define c35 where "c35 = fl64 (35 / 100)"
  define p where "p = fl64 (r * c35)"
  have e6: "\<bar>c6 - 6 / 10\<bar> \<le> 1 / 2 ^ 52"
    unfolding c6_def by (rule fl64_err) simp_all
  have e35: "\<bar>c35 - 35 / 100\<bar> \<le> 1 / 2 ^ 52"
    unfolding c35_def by (rule fl64_err) simp_all
  have small: "(1::rat) / 2 ^ 52 \<le> 1 / 1000000" by simp
  have c35pos: "0 \<le> c35" and c35hi: "c35 \<le> 36 / 100" using e35 small by linarith+
  have m0: "0 \<le> r * c35" using assms(1) c35pos by simp
  have m1: "r * c35 \<le> c35"
    using assms c35pos by (simp add: mult_left_le_one_le)
  have ep: "\<bar>p - r * c35\<bar> \<le> 1 / 2 ^ 52"
    unfolding p_def using m0 m1 c35hi by (intro fl64_err) linarith+
  have s0: "0 \<le> c6 + p" and s4: "c6 + p < 4" using e6 ep m0 m1 c35hi small by linarith+
  have es: "\<bar>fl64 (c6 + p) - (c6 + p)\<bar> \<le> 1 / 2 ^ 52"
    using s0 s4 by (rule fl64_err)
  have rs: "randomScore r = fl64 (c6 + p)"
    by (simp add: randomScore_def fadd_def fmul_def c6_def c35_def p_def)
  have c35hi': "c35 \<le> 35 / 100 + 1 / 1000000" using e35 small by linarith
  show ?thesis unfolding rs using es e6 ep m0 m1 c35hi' small by linarith
qed

lemma toFixed2_range:
  assumes "595 / 1000 \<le> x" and "x < 955 / 1000"
  shows "60 \<le> toFixed2 x \<and> toFixed2 x \<le> 95"
proof -
  have "\<not> x < 0" using assms by simp
  then have t: "toFixed2 x = \<lfloor>x * 100 + 1 / 2\<rfloor>" by (simp add: toFixed2_def)
  have "60 \<le> x * 100 + 1 / 2" and "x * 100 + 1 / 2 < 96" using assms by linarith+
  then have "60 \<le> \<lfloor>x * 100 + 1 / 2\<rfloor>" and "\<lfloor>x * 100 + 1 / 2\<rfloor> < 96"
    by (simp_all add: le_floor_iff floor_less_iff)
  then show ?thesis unfolding t by simp
qed

text \<open>The binary64 values of the decimals 0.60, 0.61, \<dots>, 0.95 lie between the first and the last.\<close>

lemma two_decimals_ordered:
  assumes "60 \<le> n" and "n \<le> 95"
  shows "fl64 (60 / 100) \<le> fl64 (of_int n / 100) \<and> fl64 (of_int n / 100) \<le> fl64 (95 / 100)"
proof -
  have small: "(1::rat) / 2 ^ 52 \<le> 1 / 1000000" by simp
  have n0: "(0::rat) \<le> of_int n / 100" and n4: "rat_of_int n / 100 < 4" using assms by simp_all
  have en: "\<bar>fl64 (of_int n / 100) - of_int n / 100\<bar> \<le> 1 / 2 ^ 52"
    using n0 n4 by (rule fl64_err)
  have e60: "\<bar>fl64 (60 / 100) - 60 / 100\<bar> \<le> 1 / 2 ^ 52" by (rule fl64_err) simp_all
  have e95: "\<bar>fl64 (95 / 100) - 95 / 100\<bar> \<le> 1 / 2 ^ 52" by (rule fl64_err) simp_all
  have lo: "fl64 (60 / 100) \<le> fl64 (of_int n / 100)"
  proof (cases "n = 60")
    case True
    then show ?thesis by simp
  next
    case False
    with assms have "61 \<le> n" by simp
    then have "(61::rat) / 100 \<le> of_int n / 100" by simp
    with en e60 small show ?thesis by linarith
  qed
  have hi: "fl64 (of_int n / 100) \<le> fl64 (95 / 100)"
  proof (cases "n = 95")
    case True
    then show ?thesis by simp
  next
    case False
    with assms have "n \<le> 94" by simp
    then have "rat_of_int n / 100 \<le> 94 / 100" by simp
    with en e95 small show ?thesis by linarith
  qed
  from lo hi show ?thesis ..
qed


section \<open>The scorer at concrete draws\<close>

text \<open>\<^verbatim>\<open>Math.random() = 0.25\<close>: the raw score is 0.6875, published as 0.69 and 0.31.\<close>

lemma randomScore_quarter: "randomScore (1 / 4) = 11 / 16"
  by (simp add: randomScore_def fl_eval)

lemma aiProb_quarter: "aiProb (1 / 4) = 5 / 16"
  by (simp add: aiProb_def randomScore_quarter fsub_def) (simp add: fl_eval)

lemma score_quarter: "Number_toFixed2 (11 / 16) = fl64 (69 / 100)"
  by (simp add: Number_toFixed2_def toFixed2_def floor_rat_numeral)

lemma ai_quarter: "Number_toFixed2 (5 / 16) = fl64 (31 / 100)"
  by (simp add: Number_toFixed2_def toFixed2_def floor_rat_numeral)

lemma message_quarter: "message_of (11 / 16) = ''Uncertain''"
  by (simp add: message_of_def) (simp add: fl_eval)

lemma fl64_half: "fl64 (1 / 2) = 1 / 2"
  by (simp add: fl_eval)

lemmas quarter_eval = randomScore_quarter aiProb_quarter score_quarter ai_quarter message_quarter
  fl64_half dec_now

text \<open>
  \<^verbatim>\<open>Math.random()\<close> returning \<open>321685687669321 / 2\<^sup>5\<^sup>2\<close> (about 0.0714): the raw score is exactly 0.625,
  halfway between 0.62 and 0.63, and its complement 0.375 is halfway between 0.37 and 0.38.
\<close>

lemma randomScore_tie: "randomScore (321685687669321 / 4503599627370496) = 5 / 8"
  by (simp add: randomScore_def fl_eval)

lemma aiProb_tie: "aiProb (321685687669321 / 4503599627370496) = 3 / 8"
  unfolding aiProb_def randomScore_tie by (simp add: fl_eval)

lemma score_tie: "Number_toFixed2 (5 / 8) = fl64 (63 / 100)"
  by (simp add: Number_toFixed2_def toFixed2_def floor_rat_numeral)

lemma ai_tie: "Number_toFixed2 (3 / 8) = fl64 (38 / 100)"
  by (simp add: Number_toFixed2_def toFixed2_def floor_rat_numeral)

lemma sum_tie: "fadd (fl64 (63 / 100)) (fl64 (38 / 100)) = fl64 (101 / 100)"
  by (simp add: fl_eval)

lemma gap_tie: "1 / 101 < fl64 (63 / 100) + fl64 (38 / 100) - 1"
  by (simp add: fl_eval)

text \<open>The draws at which the raw score is exactly the binary64 value of 0.8 and of 0.65.\<close>

lemma cutoffs_ordered: "fl64 (65 / 100) < fl64 (8 / 10)"
  by (simp add: fl_eval)

lemma randomScore_at_080:
  "randomScore (1286742750677285 / 2251799813685248) = fl64 (8 / 10)"
  by (simp add: randomScore_def fl_eval)

lemma randomScore_at_065:
  "randomScore (643371375338643 / 4503599627370496) = fl64 (65 / 100)"
  by (simp add: randomScore_def fl_eval)

lemma score_065: "Number_toFixed2 (fl64 (65 / 100)) = fl64 (65 / 100)"
  by (simp add: fl_eval)

text \<open>\<^verbatim>\<open>Math.random() = 37 / 64\<close>: the raw score is above 0.8 and is published as 0.80.\<close>

lemma randomScore_above_080: "fl64 (8 / 10) < randomScore (37 / 64)"
  by (simp add: randomScore_def fl_eval)

lemma score_above_080: "Number_toFixed2 (randomScore (37 / 64)) = fl64 (80 / 100)"
  by (simp add: randomScore_def fl_eval)

text \<open>The mock verifier on the demo file.\<close>

lemma id_half: "dec (nat \<lfloor>fmul (1 / 2) 1000000\<rfloor>) = ''500000''"
  by (simp add: fl_eval dec.simps hexdigit_def)

lemma exif_half: "(fl64 (4 / 10) < 1 / 2) = True"
  by (simp add: fl_eval)

lemma mock_demo:
  "mockVerify demoFile h (1 / 4) (1 / 2) (1 / 2) =
     VerifyJson ''ok'' ''PLS-MOCK-500000'' (fl64 (69 / 100)) (fl64 (31 / 100))
       (Exif (Some ''MockCam 1.0'') True) h ''Uncertain''"
  unfolding mockVerify_def Let_def name_demo ext_demo randomScore_quarter aiProb_quarter
    score_quarter ai_quarter message_quarter id_half exif_half
  by simp


section \<open>Integrity gate\<close>

text \<open>
  C1, as amended. An upload with a file and a non-empty claimed digest that differs from
  the server's SHA-256 hex digest of the file's bytes is answered with HTTP 400, status
  \<^verbatim>\<open>error\<close> and the hash-mismatch message; the answer is an error body, which carries no
  score and no identifier.
\<close>

theorem nonempty_mismatch_rejected:
  assumes "d \<noteq> []" and "d \<noteq> digest_hex (content f)"
  shows "POST \<lparr>file = Some f, clientHash = Some d\<rparr> now r1 r2 =
           \<lparr>code = 400, body = ErrorJson ''error'' ''Hash mismatch - file may be tampered''\<rparr>"
  using assms by (intro POST_mismatch) (simp_all add: truthy_def)

text \<open>The demo file sent with the all-zero digest of 64 hex digits.\<close>

theorem nonempty_mismatch_rejected_witness:
  "POST \<lparr>file = Some demoFile,
         clientHash = Some ''0000000000000000000000000000000000000000000000000000000000000000''\<rparr>
     1762128000000 (1 / 4) (1 / 2) =
   \<lparr>code = 400, body = ErrorJson ''error'' ''Hash mismatch - file may be tampered''\<rparr>"
  by (rule nonempty_mismatch_rejected) (simp_all add: digest_demo)

text \<open>
  C1 as stated fails when the claimed digest is the empty string: it differs from the
  server's digest, yet the guard \<^verbatim>\<open>clientHash && ...\<close> treats it as absent, and the upload
  is scored.
\<close>

theorem empty_claimed_digest_scored:
  "[] \<noteq> digest_hex (content demoFile) \<and>
   POST \<lparr>file = Some demoFile, clientHash = Some []\<rparr> 1762128000000 (1 / 4) (1 / 2) =
     \<lparr>code = 200,
      body = VerifyJson ''ok'' ''PLS-1762128000000'' (fl64 (69 / 100)) (fl64 (31 / 100))
               (Exif None False)
               (Some ''4c4b6a3be1314ab86138bef4314dde022e600960d8689a2c8f8631802d20dab6'')
               ''Uncertain''\<rparr>"
  by (simp add: POST_def Let_def truthy_def digest_demo quarter_eval)

text \<open>
  C6, as amended. The gate compares with \<^verbatim>\<open>!==\<close>: exact, case-sensitive string equality.
  An upload with a file is accepted exactly when the claimed digest is absent, empty, or
  identical to the server's lowercase hex digest.
\<close>

theorem gate_is_exact_equality:
  "status (body (POST \<lparr>file = Some f, clientHash = c\<rparr> now r1 r2)) = ''ok'' \<longleftrightarrow>
     c = None \<or> c = Some [] \<or> c = Some (digest_hex (content f))"
  by (auto simp: POST_def Let_def truthy_def split: option.splits)

theorem gate_is_exact_equality_witness:
  "status (body (POST \<lparr>file = Some demoFile,
       clientHash = Some ''4c4b6a3be1314ab86138bef4314dde022e600960d8689a2c8f8631802d20dab6''\<rparr>
       1762128000000 (1 / 4) (1 / 2))) = ''ok''"
  using gate_is_exact_equality [of demoFile
    "Some ''4c4b6a3be1314ab86138bef4314dde022e600960d8689a2c8f8631802d20dab6''"
    1762128000000 "1 / 4" "1 / 2"]
  by (simp add: digest_demo)

text \<open>
  C6 as stated fails: the digest of the demo file written in upper case equals the
  server's digest up to letter case and has its length, and the upload is rejected.
\<close>

theorem uppercase_digest_rejected:
  "map ascii_lower ''4C4B6A3BE1314AB86138BEF4314DDE022E600960D8689A2C8F8631802D20DAB6'' =
     digest_hex (content demoFile) \<and>
   length ''4C4B6A3BE1314AB86138BEF4314DDE022E600960D8689A2C8F8631802D20DAB6'' =
     length (digest_hex (content demoFile)) \<and>
   POST \<lparr>file = Some demoFile,
         clientHash = Some ''4C4B6A3BE1314AB86138BEF4314DDE022E600960D8689A2C8F8631802D20DAB6''\<rparr>
     1762128000000 (1 / 4) (1 / 2) =
   \<lparr>code = 400, body = ErrorJson ''error'' ''Hash mismatch - file may be tampered''\<rparr>"
  by (simp add: POST_def Let_def truthy_def digest_demo ascii_lower_def)

text \<open>
  C7, as amended. An upload whose form has no entry named \<^verbatim>\<open>file\<close>, or whose \<^verbatim>\<open>file\<close>
  entry is the empty string (the values for which \<^verbatim>\<open>!file\<close> holds), is answered with
  HTTP 400, status \<^verbatim>\<open>error\<close> and the message \<^verbatim>\<open>No file uploaded\<close>; the answer is an error
  body, which carries no score and no identifier.
\<close>

theorem missing_file_rejected:
  assumes "raw_file req = None \<or> raw_file req = Some (TextValue [])"
  shows "POST_request req now r1 r2 =
           Inr \<lparr>code = 400, body = ErrorJson ''error'' ''No file uploaded''\<rparr>"
proof -
  from assms have "\<not> truthy_value (raw_file req)"
    by (auto simp: truthy_value_def)
  then show ?thesis by (simp add: POST_request_def)
qed

text \<open>A form without a \<^verbatim>\<open>file\<close> entry, and a form whose \<^verbatim>\<open>file\<close> entry is an empty text field.\<close>

theorem missing_file_rejected_witness:
  "POST_request \<lparr>raw_file = None, raw_hash = None\<rparr> 1762128000000 (1 / 4) (1 / 2) =
     Inr \<lparr>code = 400, body = ErrorJson ''error'' ''No file uploaded''\<rparr> \<and>
   POST_request \<lparr>raw_file = Some (TextValue []), raw_hash = None\<rparr> 1762128000000 (1 / 4) (1 / 2) =
     Inr \<lparr>code = 400, body = ErrorJson ''error'' ''No file uploaded''\<rparr>"
proof -
  have 1: "POST_request \<lparr>raw_file = None, raw_hash = None\<rparr> 1762128000000 (1 / 4) (1 / 2) =
     Inr \<lparr>code = 400, body = ErrorJson ''error'' ''No file uploaded''\<rparr>"
    by (rule missing_file_rejected) simp
  have 2: "POST_request \<lparr>raw_file = Some (TextValue []), raw_hash = None\<rparr>
       1762128000000 (1 / 4) (1 / 2) =
     Inr \<lparr>code = 400, body = ErrorJson ''error'' ''No file uploaded''\<rparr>"
    by (rule missing_file_rejected) simp
  from 1 2 show ?thesis ..
qed

text \<open>
  C7 as stated fails: a file that is present and has no bytes passes \<^verbatim>\<open>if (!file)\<close> and is
  scored.
\<close>

theorem empty_file_scored:
  "POST_request \<lparr>raw_file = Some (FileValue \<lparr>name = ''empty.bin'', content = []\<rparr>),
                 raw_hash = None\<rparr> 1762128000000 (1 / 4) (1 / 2) =
     Inr (POST \<lparr>file = Some \<lparr>name = ''empty.bin'', content = []\<rparr>, clientHash = None\<rparr>
            1762128000000 (1 / 4) (1 / 2)) \<and>
   content \<lparr>name = ''empty.bin'', content = []\<rparr> = [] \<and>
   code (POST \<lparr>file = Some \<lparr>name = ''empty.bin'', content = []\<rparr>, clientHash = None\<rparr>
           1762128000000 (1 / 4) (1 / 2)) = 200 \<and>
   status (body (POST \<lparr>file = Some \<lparr>name = ''empty.bin'', content = []\<rparr>, clientHash = None\<rparr>
           1762128000000 (1 / 4) (1 / 2))) = ''ok'' \<and>
   authenticityScore (body (POST \<lparr>file = Some \<lparr>name = ''empty.bin'', content = []\<rparr>,
           clientHash = None\<rparr> 1762128000000 (1 / 4) (1 / 2))) = fl64 (69 / 100)"
proof -
  let ?e = "\<lparr>name = ''empty.bin'', content = []\<rparr>"
  have r: "POST_request \<lparr>raw_file = Some (FileValue ?e), raw_hash = None\<rparr>
             1762128000000 (1 / 4) (1 / 2) =
           Inr (POST \<lparr>file = Some ?e, clientHash = None\<rparr> 1762128000000 (1 / 4) (1 / 2))"
    using POST_request_typed [of "\<lparr>file = Some ?e, clientHash = None\<rparr>"
        1762128000000 "1 / 4" "1 / 2"]
    by simp
  have p: "content ?e = [] \<and>
     code (POST \<lparr>file = Some ?e, clientHash = None\<rparr> 1762128000000 (1 / 4) (1 / 2)) = 200 \<and>
     status (body (POST \<lparr>file = Some ?e, clientHash = None\<rparr>
       1762128000000 (1 / 4) (1 / 2))) = ''ok'' \<and>
     authenticityScore (body (POST \<lparr>file = Some ?e, clientHash = None\<rparr>
       1762128000000 (1 / 4) (1 / 2))) = fl64 (69 / 100)"
    by (simp add: POST_def Let_def truthy_def quarter_eval)
  from r p show ?thesis ..
qed

text \<open>
  C2. The claim: when the integrity check fails, nothing, the browser flow included, gives
  the caller an authenticity score. The code at a failing input: the user selects a file
  \<^verbatim>\<open>a.txt\<close> and then the demo file, and the hash of \<^verbatim>\<open>a.txt\<close> arrives last, so the
  component holds the demo file with the digest of \<^verbatim>\<open>a.txt\<close>. The backend answers 400 with
  the mismatch error; \<open>uploadAndVerify\<close> treats the 400 like an unreachable backend, runs
  the mock verifier, and stores a result with status \<^verbatim>\<open>ok\<close> and a score of 0.69.
\<close>

theorem mismatch_falls_back_to_mock:
  "handleFiles_resume \<lparr>name = ''a.txt'', content = [97, 98, 99]\<rparr>
     (handleFiles_resume demoFile
       (handleFiles_begin demoFile
         (handleFiles_begin \<lparr>name = ''a.txt'', content = [97, 98, 99]\<rparr> initial_state))) =
     \<lparr>ui_file = Some demoFile,
      ui_hash = Some ''ba7816bf8f01cfea414140de5dae2223b00361a396177a9cb410ff61f20015ad'',
      ui_loading = False, ui_result = None, ui_error = None\<rparr> \<and>
   api_verify 1762128000000 (1 / 4) (1 / 2)
     \<lparr>file = Some demoFile,
      clientHash = Some ''ba7816bf8f01cfea414140de5dae2223b00361a396177a9cb410ff61f20015ad''\<rparr> =
     Response \<lparr>code = 400,
               body = ErrorJson ''error'' ''Hash mismatch - file may be tampered''\<rparr> \<and>
   uploadAndVerify (api_verify 1762128000000 (1 / 4) (1 / 2)) (1 / 4) (1 / 2) (1 / 2)
     \<lparr>ui_file = Some demoFile,
      ui_hash = Some ''ba7816bf8f01cfea414140de5dae2223b00361a396177a9cb410ff61f20015ad'',
      ui_loading = False, ui_result = None, ui_error = None\<rparr> =
     \<lparr>ui_file = Some demoFile,
      ui_hash = Some ''ba7816bf8f01cfea414140de5dae2223b00361a396177a9cb410ff61f20015ad'',
      ui_loading = False,
      ui_result = Some (VerifyJson ''ok'' ''PLS-MOCK-500000'' (fl64 (69 / 100)) (fl64 (31 / 100))
        (Exif (Some ''MockCam 1.0'') True)
        (Some ''ba7816bf8f01cfea414140de5dae2223b00361a396177a9cb410ff61f20015ad'')
        ''Uncertain''),
      ui_error = None\<rparr>"
proof -
  let ?h = "''ba7816bf8f01cfea414140de5dae2223b00361a396177a9cb410ff61f20015ad''"
  let ?st = "\<lparr>ui_file = Some demoFile, ui_hash = Some ?h,
              ui_loading = False, ui_result = None, ui_error = None\<rparr>"
  have h: "computeSHA256 \<lparr>name = ''a.txt'', content = [97, 98, 99]\<rparr> = ?h"
    unfolding computeSHA256_digest by (simp add: digest_abc)
  have s: "handleFiles_resume \<lparr>name = ''a.txt'', content = [97, 98, 99]\<rparr>
     (handleFiles_resume demoFile
       (handleFiles_begin demoFile
         (handleFiles_begin \<lparr>name = ''a.txt'', content = [97, 98, 99]\<rparr> initial_state))) = ?st"
    unfolding handleFiles_resume_def handleFiles_begin_def initial_state_def h by simp
  have z: "?h \<noteq> digest_hex (content demoFile)" by (simp add: digest_demo)
  have a: "api_verify 1762128000000 (1 / 4) (1 / 2) \<lparr>file = Some demoFile, clientHash = Some ?h\<rparr> =
     Response \<lparr>code = 400,
               body = ErrorJson ''error'' ''Hash mismatch - file may be tampered''\<rparr>"
    unfolding api_verify_def using z by (simp add: POST_mismatch truthy_def)
  have b: "uploadAndVerify (api_verify 1762128000000 (1 / 4) (1 / 2)) (1 / 4) (1 / 2) (1 / 2) ?st =
     \<lparr>ui_file = Some demoFile, ui_hash = Some ?h, ui_loading = False,
      ui_result = Some (VerifyJson ''ok'' ''PLS-MOCK-500000'' (fl64 (69 / 100)) (fl64 (31 / 100))
        (Exif (Some ''MockCam 1.0'') True) (Some ?h) ''Uncertain''),
      ui_error = None\<rparr>"
    by (simp add: uploadAndVerify_def Let_def truthy_def a ok_def mock_demo)
  from s a b show ?thesis by blast
qed


section \<open>Digest and identifier\<close>

text \<open>
  C9. The digest is a function of the bytes alone: two runs of the handler on the same
  bytes, under any file names, clocks and random draws, report the same digest, and the
  browser's \<open>computeSHA256\<close> computes that digest too.
\<close>

theorem digest_deterministic:
  "hash (body (POST \<lparr>file = Some \<lparr>name = n, content = b\<rparr>, clientHash = None\<rparr> now r1 r2)) =
     Some (digest_hex b) \<and>
   hash (body (POST \<lparr>file = Some \<lparr>name = n', content = b\<rparr>, clientHash = None\<rparr> now' r1' r2')) =
     Some (digest_hex b) \<and>
   computeSHA256 \<lparr>name = n, content = b\<rparr> = digest_hex b \<and>
   computeSHA256 \<lparr>name = n', content = b\<rparr> = digest_hex b"
  by (simp add: POST_def Let_def truthy_def computeSHA256_digest)

theorem digest_deterministic_witness:
  "hash (body (POST \<lparr>file = Some \<lparr>name = ''a.txt'', content = [97, 98, 99]\<rparr>, clientHash = None\<rparr>
      1762128000000 (1 / 4) (1 / 2))) =
     Some ''ba7816bf8f01cfea414140de5dae2223b00361a396177a9cb410ff61f20015ad'' \<and>
   hash (body (POST \<lparr>file = Some \<lparr>name = ''b.txt'', content = [97, 98, 99]\<rparr>, clientHash = None\<rparr>
      1762128000001 (1 / 2) (1 / 4))) =
     Some ''ba7816bf8f01cfea414140de5dae2223b00361a396177a9cb410ff61f20015ad'' \<and>
   computeSHA256 \<lparr>name = ''a.txt'', content = [97, 98, 99]\<rparr> =
     ''ba7816bf8f01cfea414140de5dae2223b00361a396177a9cb410ff61f20015ad''"
  using digest_deterministic [of "''a.txt''" "[97, 98, 99]" 1762128000000 "1 / 4" "1 / 2"
      "''b.txt''" 1762128000001 "1 / 2" "1 / 4"]
  unfolding digest_abc by blast

text \<open>
  C10. In every \<^verbatim>\<open>ok\<close> response the \<open>hash\<close> field is the server's digest of the uploaded
  bytes, 64 lowercase hex digits; the claimed digest was absent, empty, or that same
  string.
\<close>

theorem ok_hash_is_server_digest:
  assumes "status (body (POST req now r1 r2)) = ''ok''"
  shows "\<exists>f. file req = Some f \<and>
           hash (body (POST req now r1 r2)) = Some (digest_hex (content f)) \<and>
           (clientHash req = None \<or> clientHash req = Some [] \<or>
            clientHash req = Some (digest_hex (content f))) \<and>
           length (digest_hex (content f)) = 64 \<and>
           set (digest_hex (content f)) \<subseteq> lower_hex"
proof -
  from assms obtain f where f: "file req = Some f"
    "\<not> (truthy (clientHash req) \<and> clientHash req \<noteq> Some (digest_hex (content f)))"
    by (rule POST_ok_cases)
  have h: "hash (body (POST req now r1 r2)) = Some (digest_hex (content f))"
    using f(2) by (auto simp: POST_pass [OF f])
  have c: "clientHash req = None \<or> clientHash req = Some [] \<or>
           clientHash req = Some (digest_hex (content f))"
    using f(2) by (auto simp: truthy_def split: option.splits)
  from f(1) h c length_digest_hex set_digest_hex show ?thesis by blast
qed

theorem ok_hash_is_server_digest_witness:
  "hash (body (POST \<lparr>file = Some demoFile,
       clientHash = Some ''4c4b6a3be1314ab86138bef4314dde022e600960d8689a2c8f8631802d20dab6''\<rparr>
       1762128000000 (1 / 4) (1 / 2))) =
     Some ''4c4b6a3be1314ab86138bef4314dde022e600960d8689a2c8f8631802d20dab6'' \<and>
   hash (body (POST \<lparr>file = Some demoFile, clientHash = None\<rparr> 1762128000000 (1 / 4) (1 / 2))) =
     Some ''4c4b6a3be1314ab86138bef4314dde022e600960d8689a2c8f8631802d20dab6''"
proof -
  have a: "status (body (POST \<lparr>file = Some demoFile,
       clientHash = Some ''4c4b6a3be1314ab86138bef4314dde022e600960d8689a2c8f8631802d20dab6''\<rparr>
       1762128000000 (1 / 4) (1 / 2))) = ''ok''"
    by (simp add: POST_def Let_def truthy_def digest_demo)
  have b: "status (body (POST \<lparr>file = Some demoFile, clientHash = None\<rparr>
       1762128000000 (1 / 4) (1 / 2))) = ''ok''"
    by (simp add: POST_def Let_def truthy_def)
  show ?thesis
    using ok_hash_is_server_digest [OF a] ok_hash_is_server_digest [OF b]
    by (simp add: digest_demo)
qed

text \<open>
  C3, as amended. The identifier of an accepted upload is \<^verbatim>\<open>PLS-\<close> followed by the decimal
  clock reading \<^verbatim>\<open>Date.now()\<close>: it depends on the time of the request alone, and two accepted
  uploads get the same identifier exactly when their clock readings are equal, whatever
  their contents.
\<close>

theorem id_is_timestamp:
  assumes "status (body (POST req now r1 r2)) = ''ok''"
    and "status (body (POST req' now' r1' r2')) = ''ok''"
  shows "polarisId (body (POST req now r1 r2)) = ''PLS-'' @ dec now \<and>
         (polarisId (body (POST req now r1 r2)) = polarisId (body (POST req' now' r1' r2'))
            \<longleftrightarrow> now = now')"
proof -
  from assms(1) obtain f where f: "file req = Some f"
    "\<not> (truthy (clientHash req) \<and> clientHash req \<noteq> Some (digest_hex (content f)))"
    by (rule POST_ok_cases)
  from assms(2) obtain f' where f': "file req' = Some f'"
    "\<not> (truthy (clientHash req') \<and> clientHash req' \<noteq> Some (digest_hex (content f')))"
    by (rule POST_ok_cases)
  have a: "polarisId (body (POST req now r1 r2)) = ''PLS-'' @ dec now"
    by (simp add: POST_pass [OF f])
  have b: "polarisId (body (POST req' now' r1' r2')) = ''PLS-'' @ dec now'"
    by (simp add: POST_pass [OF f'])
  show ?thesis unfolding a b using dec_inj by auto
qed

text \<open>Two different files uploaded at the same millisecond share an identifier.\<close>

theorem id_is_timestamp_witness:
  "polarisId (body (POST \<lparr>file = Some demoFile, clientHash = None\<rparr> 1762128000000 (1 / 4) (1 / 2))) =
     ''PLS-1762128000000'' \<and>
   polarisId (body (POST \<lparr>file = Some demoFile, clientHash = None\<rparr> 1762128000000 (1 / 4) (1 / 2))) =
   polarisId (body (POST \<lparr>file = Some \<lparr>name = ''empty.bin'', content = []\<rparr>, clientHash = None\<rparr>
     1762128000000 (1 / 2) (1 / 4)))"
proof -
  let ?X = "POST \<lparr>file = Some demoFile, clientHash = None\<rparr> 1762128000000 (1 / 4) (1 / 2)"
  let ?Y = "POST \<lparr>file = Some \<lparr>name = ''empty.bin'', content = []\<rparr>, clientHash = None\<rparr>
              1762128000000 (1 / 2) (1 / 4)"
  have a: "status (body ?X) = ''ok''"
    by (simp add: POST_def Let_def truthy_def)
  have b: "status (body ?Y) = ''ok''"
    by (simp add: POST_def Let_def truthy_def)
  note t = id_is_timestamp [OF a b]
  from t have "polarisId (body ?X) = ''PLS-'' @ dec 1762128000000" by (rule conjunct1)
  then have c1: "polarisId (body ?X) = ''PLS-1762128000000''" by (simp only: dec_now append.simps)
  from t have "polarisId (body ?X) = polarisId (body ?Y) \<longleftrightarrow> (1762128000000::nat) = 1762128000000"
    by (rule conjunct2)
  then have c2: "polarisId (body ?X) = polarisId (body ?Y)" by (simp only: refl)
  from c1 c2 show ?thesis ..
qed

text \<open>
  C3 as stated fails: the same file, hence the same digest, verified one millisecond later
  gets another identifier.
\<close>

theorem same_content_different_id:
  "polarisId (body (POST \<lparr>file = Some demoFile, clientHash = None\<rparr> 1762128000000 (1 / 4) (1 / 2))) \<noteq>
   polarisId (body (POST \<lparr>file = Some demoFile, clientHash = None\<rparr> 1762128000001 (1 / 4) (1 / 2)))"
  by (simp add: POST_def Let_def truthy_def dec.simps hexdigit_def)


section \<open>Scores and labels\<close>

text \<open>
  C8. For every draw \<open>0 \<le> r < 1\<close> of \<^verbatim>\<open>Math.random()\<close>, the published authenticity score,
  of the handler and of the mock verifier, is the binary64 value of one of the decimals
  0.60, 0.61, \<dots>, 0.95, and lies between the values of 0.60 and 0.95.
\<close>

theorem score_in_range:
  assumes "0 \<le> r" and "r < 1"
  shows "(status (body (POST req now r r2)) = ''ok'' \<longrightarrow>
           (\<exists>n. 60 \<le> n \<and> n \<le> 95 \<and>
                authenticityScore (body (POST req now r r2)) = fl64 (of_int n / 100)) \<and>
           fl64 (60 / 100) \<le> authenticityScore (body (POST req now r r2)) \<and>
           authenticityScore (body (POST req now r r2)) \<le> fl64 (95 / 100)) \<and>
         (\<exists>n. 60 \<le> n \<and> n \<le> 95 \<and>
              authenticityScore (mockVerify f h r m2 m3) = fl64 (of_int n / 100)) \<and>
         fl64 (60 / 100) \<le> authenticityScore (mockVerify f h r m2 m3) \<and>
         authenticityScore (mockVerify f h r m2 m3) \<le> fl64 (95 / 100)"
proof -
  define n where "n = toFixed2 (randomScore r)"
  have n: "60 \<le> n \<and> n \<le> 95"
    unfolding n_def using randomScore_range [OF assms] by (intro toFixed2_range) simp_all
  have s: "Number_toFixed2 (randomScore r) = fl64 (of_int n / 100)"
    by (simp add: Number_toFixed2_def n_def)
  have o: "fl64 (60 / 100) \<le> fl64 (of_int n / 100) \<and> fl64 (of_int n / 100) \<le> fl64 (95 / 100)"
    using n by (intro two_decimals_ordered) simp_all
  have m: "authenticityScore (mockVerify f h r m2 m3) = fl64 (of_int n / 100)"
    by (simp add: mockVerify_def Let_def s)
  have p: "authenticityScore (body (POST req now r r2)) = fl64 (of_int n / 100)"
    if "status (body (POST req now r r2)) = ''ok''"
  proof -
    from that obtain g where g: "file req = Some g"
      "\<not> (truthy (clientHash req) \<and> clientHash req \<noteq> Some (digest_hex (content g)))"
      by (rule POST_ok_cases)
    show ?thesis by (simp add: POST_pass [OF g] s)
  qed
  show ?thesis using n o m p by metis
qed

theorem score_in_range_witness:
  "(0::rat) \<le> 1 / 4 \<and> (1::rat) / 4 < 1 \<and>
   authenticityScore (body (POST \<lparr>file = Some demoFile, clientHash = None\<rparr>
       1762128000000 (1 / 4) (1 / 2))) = fl64 (69 / 100) \<and>
   fl64 (60 / 100) \<le> fl64 (69 / 100) \<and> fl64 (69 / 100) \<le> fl64 (95 / 100) \<and>
   authenticityScore (mockVerify demoFile None (1 / 4) (1 / 2) (1 / 2)) = fl64 (69 / 100)"
proof -
  let ?X = "POST \<lparr>file = Some demoFile, clientHash = None\<rparr> 1762128000000 (1 / 4) (1 / 2)"
  have h0: "(0::rat) \<le> 1 / 4" and h1: "(1::rat) / 4 < 1" by simp_all
  have a: "status (body ?X) = ''ok''"
    by (simp add: POST_def Let_def truthy_def)
  have v: "authenticityScore (body ?X) = fl64 (69 / 100)"
    by (simp add: POST_def Let_def truthy_def quarter_eval)
  have m: "authenticityScore (mockVerify demoFile None (1 / 4) (1 / 2) (1 / 2)) = fl64 (69 / 100)"
    by (simp add: mock_demo)
  from score_in_range [OF h0 h1, of "\<lparr>file = Some demoFile, clientHash = None\<rparr>"
      1762128000000 "1 / 2" demoFile None "1 / 2" "1 / 2"] a
  have "fl64 (60 / 100) \<le> authenticityScore (body ?X) \<and>
        authenticityScore (body ?X) \<le> fl64 (95 / 100)"
    by blast
  with v have "fl64 (60 / 100) \<le> fl64 (69 / 100) \<and> fl64 (69 / 100) \<le> fl64 (95 / 100)"
    by (simp only:)
  with h0 h1 v m show ?thesis by blast
qed

text \<open>
  C5, as amended. In an \<^verbatim>\<open>ok\<close> response the label is fixed by the raw score, the value
  before it is rounded to two decimals for publication: above 0.80 it is
  \<^verbatim>\<open>Likely Authentic\<close>, above 0.65 and up to 0.80 it is \<^verbatim>\<open>Uncertain\<close>, up to 0.65 it is
  \<^verbatim>\<open>Likely AI-generated\<close>. A raw score of exactly 0.80 is \<^verbatim>\<open>Uncertain\<close>, and a raw score of
  exactly 0.65 is \<^verbatim>\<open>Likely AI-generated\<close>.
\<close>

theorem label_from_raw_score:
  assumes "status (body (POST req now r1 r2)) = ''ok''"
  shows "(fl64 (8 / 10) < randomScore r1 \<longrightarrow>
            message (body (POST req now r1 r2)) = ''Likely Authentic'') \<and>
         (fl64 (65 / 100) < randomScore r1 \<and> randomScore r1 \<le> fl64 (8 / 10) \<longrightarrow>
            message (body (POST req now r1 r2)) = ''Uncertain'') \<and>
         (randomScore r1 \<le> fl64 (65 / 100) \<longrightarrow>
            message (body (POST req now r1 r2)) = ''Likely AI-generated'') \<and>
         (randomScore r1 = fl64 (8 / 10) \<longrightarrow>
            message (body (POST req now r1 r2)) = ''Uncertain'') \<and>
         (randomScore r1 = fl64 (65 / 100) \<longrightarrow>
            message (body (POST req now r1 r2)) = ''Likely AI-generated'')"
proof -
  from assms obtain f where f: "file req = Some f"
    "\<not> (truthy (clientHash req) \<and> clientHash req \<noteq> Some (digest_hex (content f)))"
    by (rule POST_ok_cases)
  have m: "message (body (POST req now r1 r2)) = message_of (randomScore r1)"
    by (simp add: POST_pass [OF f])
  show ?thesis unfolding m message_of_def using cutoffs_ordered by auto
qed

text \<open>The two boundaries, at the draws that produce them, and a raw score above 0.80.\<close>

theorem label_from_raw_score_witness:
  "message (body (POST \<lparr>file = Some demoFile, clientHash = None\<rparr> 1762128000000
      (1286742750677285 / 2251799813685248) (1 / 2))) = ''Uncertain'' \<and>
   message (body (POST \<lparr>file = Some demoFile, clientHash = None\<rparr> 1762128000000
      (643371375338643 / 4503599627370496) (1 / 2))) = ''Likely AI-generated'' \<and>
   message (body (POST \<lparr>file = Some demoFile, clientHash = None\<rparr> 1762128000000
      (37 / 64) (1 / 2))) = ''Likely Authentic''"
proof -
  let ?R = "\<lparr>file = Some demoFile, clientHash = None\<rparr>"
  have a: "status (body (POST ?R 1762128000000 (1286742750677285 / 2251799813685248) (1 / 2))) = ''ok''"
    by (simp add: POST_def Let_def truthy_def)
  have b: "status (body (POST ?R 1762128000000 (643371375338643 / 4503599627370496) (1 / 2))) = ''ok''"
    by (simp add: POST_def Let_def truthy_def)
  have c: "status (body (POST ?R 1762128000000 (37 / 64) (1 / 2))) = ''ok''"
    by (simp add: POST_def Let_def truthy_def)
  from label_from_raw_score [OF a] randomScore_at_080
  have 1: "message (body (POST ?R 1762128000000 (1286742750677285 / 2251799813685248) (1 / 2))) =
             ''Uncertain''" by blast
  from label_from_raw_score [OF b] randomScore_at_065
  have 2: "message (body (POST ?R 1762128000000 (643371375338643 / 4503599627370496) (1 / 2))) =
             ''Likely AI-generated''" by blast
  from label_from_raw_score [OF c] randomScore_above_080
  have 3: "message (body (POST ?R 1762128000000 (37 / 64) (1 / 2))) = ''Likely Authentic''"
    by blast
  from 1 2 3 show ?thesis by blast
qed

text \<open>
  C5 as stated fails twice. A score of exactly 0.65, raw and published, is labelled
  \<^verbatim>\<open>Likely AI-generated\<close>, not \<^verbatim>\<open>Uncertain\<close>; and a published score of 0.80 is labelled
  \<^verbatim>\<open>Likely Authentic\<close> when the raw score behind it is 0.8023.
\<close>

theorem boundary_labels:
  "randomScore (643371375338643 / 4503599627370496) = fl64 (65 / 100) \<and>
   authenticityScore (body (POST \<lparr>file = Some demoFile, clientHash = None\<rparr> 1762128000000
      (643371375338643 / 4503599627370496) (1 / 2))) = fl64 (65 / 100) \<and>
   message (body (POST \<lparr>file = Some demoFile, clientHash = None\<rparr> 1762128000000
      (643371375338643 / 4503599627370496) (1 / 2))) = ''Likely AI-generated'' \<and>
   authenticityScore (body (POST \<lparr>file = Some demoFile, clientHash = None\<rparr> 1762128000000
      (37 / 64) (1 / 2))) = fl64 (80 / 100) \<and>
   message (body (POST \<lparr>file = Some demoFile, clientHash = None\<rparr> 1762128000000
      (37 / 64) (1 / 2))) = ''Likely Authentic''"
proof -
  let ?R = "\<lparr>file = Some demoFile, clientHash = None\<rparr>"
  have m: "message_of (fl64 (65 / 100)) = ''Likely AI-generated''"
    using cutoffs_ordered by (simp add: message_of_def)
  have m': "message_of (randomScore (37 / 64)) = ''Likely Authentic''"
    using randomScore_above_080 by (simp add: message_of_def)
  have f: "file ?R = Some demoFile" by simp
  have g: "\<not> (truthy (clientHash ?R) \<and> clientHash ?R \<noteq> Some (digest_hex (content demoFile)))"
    by (simp add: truthy_def)
  note p = POST_pass [OF f g, of 1762128000000 "643371375338643 / 4503599627370496" "1 / 2"]
  note p' = POST_pass [OF f g, of 1762128000000 "37 / 64" "1 / 2"]
  have 1: "authenticityScore (body (POST ?R 1762128000000
      (643371375338643 / 4503599627370496) (1 / 2))) = fl64 (65 / 100)"
    unfolding p randomScore_at_065 score_065 by simp
  have 2: "message (body (POST ?R 1762128000000
      (643371375338643 / 4503599627370496) (1 / 2))) = ''Likely AI-generated''"
    unfolding p randomScore_at_065 m by simp
  have 3: "authenticityScore (body (POST ?R 1762128000000 (37 / 64) (1 / 2))) = fl64 (80 / 100)"
    unfolding p' score_above_080 by simp
  have 4: "message (body (POST ?R 1762128000000 (37 / 64) (1 / 2))) = ''Likely Authentic''"
    unfolding p' m' by simp
  from randomScore_at_065 1 2 3 4 show ?thesis by blast
qed

text \<open>
  C4. The claim: the published authenticity score and AI probability add up to 1. The code
  at a failing input: with the draw \<open>321685687669321 / 2\<^sup>5\<^sup>2\<close> the raw score is exactly 0.625
  and its complement 0.375; \<^verbatim>\<open>toFixed(2)\<close> rounds each half upwards on its own, the
  response carries 0.63 and 0.38, and their sum is 1.01. The mock verifier does the same.
\<close>

theorem complement_broken_at_tie:
  "authenticityScore (body (POST \<lparr>file = Some demoFile, clientHash = None\<rparr> 1762128000000
      (321685687669321 / 4503599627370496) (1 / 2))) = fl64 (63 / 100) \<and>
   aiProbability (body (POST \<lparr>file = Some demoFile, clientHash = None\<rparr> 1762128000000
      (321685687669321 / 4503599627370496) (1 / 2))) = fl64 (38 / 100) \<and>
   authenticityScore (mockVerify demoFile None (321685687669321 / 4503599627370496) (1 / 2) (1 / 2)) =
      fl64 (63 / 100) \<and>
   aiProbability (mockVerify demoFile None (321685687669321 / 4503599627370496) (1 / 2) (1 / 2)) =
      fl64 (38 / 100) \<and>
   fadd (fl64 (63 / 100)) (fl64 (38 / 100)) = fl64 (101 / 100) \<and>
   1 / 101 < fl64 (63 / 100) + fl64 (38 / 100) - 1"
proof -
  let ?R = "\<lparr>file = Some demoFile, clientHash = None\<rparr>"
  have f: "file ?R = Some demoFile" by simp
  have g: "\<not> (truthy (clientHash ?R) \<and> clientHash ?R \<noteq> Some (digest_hex (content demoFile)))"
    by (simp add: truthy_def)
  note p = POST_pass [OF f g, of 1762128000000 "321685687669321 / 4503599627370496" "1 / 2"]
  have 1: "authenticityScore (body (POST ?R 1762128000000
      (321685687669321 / 4503599627370496) (1 / 2))) = fl64 (63 / 100)"
    unfolding p randomScore_tie score_tie by simp
  have 2: "aiProbability (body (POST ?R 1762128000000
      (321685687669321 / 4503599627370496) (1 / 2))) = fl64 (38 / 100)"
    unfolding p aiProb_tie ai_tie by simp
  have 3: "authenticityScore (mockVerify demoFile None (321685687669321 / 4503599627370496)
      (1 / 2) (1 / 2)) = fl64 (63 / 100)"
    unfolding mockVerify_def Let_def randomScore_tie score_tie by simp
  have 4: "aiProbability (mockVerify demoFile None (321685687669321 / 4503599627370496)
      (1 / 2) (1 / 2)) = fl64 (38 / 100)"
    unfolding mockVerify_def Let_def aiProb_tie ai_tie by simp
  from 1 2 3 4 sum_tie gap_tie show ?thesis by blast
qed

end
